theory Spec2Isabelle
  imports Complex_Main
begin

section \<open>Weekly usage quota with background persistence (app.py)\<close>

text \<open>
  The development embeds the quota core of \<^verbatim>\<open>app.py\<close>: the in-memory list
  \<^verbatim>\<open>usage_data_cache\<close>, the event \<^verbatim>\<open>data_changed\<close>, the two request
  handlers \<^verbatim>\<open>check_credit\<close> and \<^verbatim>\<open>use_credit\<close>, the startup load
  \<^verbatim>\<open>load_initial_data\<close> and the publish procedure \<^verbatim>\<open>persist_data_to_hub\<close>.

  Modelling decisions.
  \<^item> A usage record is a Python dictionary read with \<^verbatim>\<open>.get(key, default)\<close>, so each
    of its three keys may be missing: every field is an option. Keys other than
    \<^verbatim>\<open>id\<close>, \<^verbatim>\<open>count\<close> and \<^verbatim>\<open>week_start\<close> are never read and are left out.
  \<^item> \<^verbatim>\<open>count\<close> is a Python integer (\<open>int\<close>); timestamps are the numbers returned by
    \<^verbatim>\<open>time.time()\<close>, idealised as \<open>real\<close> (no rounding of floating-point sums).
  \<^item> The clock reading \<^verbatim>\<open>now\<close> of a call is a parameter of that call.
  \<^item> The record found by \<^verbatim>\<open>next(...)\<close> is the first one whose \<^verbatim>\<open>id\<close> equals
    the identifier; it is mutated in place, which is an update of the list at that index.
  \<^item> What the outside world answers to an I/O call (download, temporary file, upload) is a
    parameter of the function that makes the call.
\<close>

subsection \<open>Settings\<close>

definition USAGE_LIMIT :: int where
  "USAGE_LIMIT = 5"

definition one_week_seconds :: real where
  "one_week_seconds = 7 * 24 * 60 * 60"

subsection \<open>Data\<close>

record usage_record =
  rec_id :: "string option"
  count :: "int option"
  week_start :: "real option"

text \<open>\<^verbatim>\<open>d.get(key, default)\<close> on a field that may be missing.\<close>

definition dict_get :: "'a option \<Rightarrow> 'a \<Rightarrow> 'a" where
  "dict_get field dflt = (case field of None \<Rightarrow> dflt | Some v \<Rightarrow> v)"

text \<open>The client of the remote dataset service: \<^verbatim>\<open>api\<close> is \<^verbatim>\<open>None\<close> when no
  \<^verbatim>\<open>HF_TOKEN\<close> is configured, an \<^verbatim>\<open>HfApi\<close> object otherwise.\<close>

datatype hf_api = HfApi

text \<open>
  The phase of the single publish procedure that \<^verbatim>\<open>persistence_lock\<close> admits.
  \<^item> \<open>Idle\<close>: no publish is running.
  \<^item> \<open>Snapshotted n touched\<close>: the snapshot is taken and the temporary file is being
    written. \<^verbatim>\<open>data_to_write = list(usage_data_cache)\<close> is a new list of the same
    dictionaries, and the cache only grows by \<^verbatim>\<open>append\<close>, so the snapshot is the first
    \<open>n\<close> records of the cache, whatever they hold when they are read. \<open>touched\<close> records
    that a request has changed one of them since the snapshot.
  \<^item> \<open>Written doc\<close>: the temporary file holds the document \<open>doc\<close> and is being uploaded.
\<close>

datatype publish_phase = Idle | Snapshotted nat bool | Written "usage_record list"

record state =
  usage_data_cache :: "usage_record list"
  data_changed :: bool
  hub_file :: "usage_record list option"
  publishing :: publish_phase

subsection \<open>Looking a user up\<close>

text \<open>\<^verbatim>\<open>next((user for user in usage_data_cache if user.get('id') == user_id), None)\<close>,
  as the position of the record found.\<close>

fun find_user :: "string \<Rightarrow> usage_record list \<Rightarrow> nat option" where
  "find_user user_id [] = None"
| "find_user user_id (user # users) =
     (if rec_id user = Some user_id then Some 0
      else map_option Suc (find_user user_id users))"

subsection \<open>The request handlers\<close>

datatype check_response =
    CheckOk int bool real
  | CheckError nat

datatype use_response =
    Success int
  | LimitReached int real
  | UseError nat
  | KeyError

text \<open>
  \<^verbatim>\<open>check_credit\<close>, from the identifier on. \<open>CheckOk c l r\<close> is the JSON answer with
  \<^verbatim>\<open>credits_remaining = c\<close>, \<^verbatim>\<open>limit_reached = l\<close>, \<^verbatim>\<open>reset_timestamp = r\<close>;
  \<open>CheckError 400\<close> is the answer to a missing or empty identifier.
\<close>

definition check_credit :: "string \<Rightarrow> real \<Rightarrow> state \<Rightarrow> check_response \<times> state" where
  "check_credit user_id now st =
     (if user_id = [] then (CheckError 400, st)
      else case find_user user_id (usage_data_cache st) of
        None \<Rightarrow> (CheckOk USAGE_LIMIT False 0, st)
      | Some i \<Rightarrow>
          let user_record = usage_data_cache st ! i;
              expired = dict_get (week_start user_record) 0 < now - one_week_seconds;
              user_record' =
                (if expired then user_record\<lparr>count := Some 0, week_start := Some now\<rparr>
                 else user_record);
              st' =
                (if expired
                 then st\<lparr>usage_data_cache := (usage_data_cache st)[i := user_record'],
                         data_changed := True\<rparr>
                 else st);
              credits_remaining = max 0 (USAGE_LIMIT - dict_get (count user_record') 0)
          in if credits_remaining = 0
             then (CheckOk credits_remaining True
                     (dict_get (week_start user_record') now + one_week_seconds), st')
             else (CheckOk credits_remaining False 0, st'))"

text \<open>
  \<^verbatim>\<open>use_credit\<close>, from the identifier on. \<open>Success c\<close> is the answer with status
  \<^verbatim>\<open>success\<close> and \<^verbatim>\<open>credits_remaining = c\<close>; \<open>LimitReached c r\<close> is the answer
  429 with status \<^verbatim>\<open>limit_reached\<close>; \<open>KeyError\<close> is what
  \<^verbatim>\<open>user_record['count'] += 1\<close> raises on a record without the key \<^verbatim>\<open>count\<close>.
\<close>

definition use_credit :: "string \<Rightarrow> real \<Rightarrow> state \<Rightarrow> use_response \<times> state" where
  "use_credit user_id now st =
     (if user_id = [] then (UseError 400, st)
      else case find_user user_id (usage_data_cache st) of
        Some i \<Rightarrow>
          let user_record = usage_data_cache st ! i;
              expired = dict_get (week_start user_record) 0 < now - one_week_seconds;
              user_record' =
                (if expired then user_record\<lparr>count := Some 0, week_start := Some now\<rparr>
                 else user_record);
              st' = st\<lparr>usage_data_cache := (usage_data_cache st)[i := user_record']\<rparr>
          in if dict_get (count user_record') 0 \<ge> USAGE_LIMIT
             then (LimitReached 0
                     (dict_get (week_start user_record') now + one_week_seconds), st')
             else (case count user_record' of
                     None \<Rightarrow> (KeyError, st')
                   | Some c \<Rightarrow>
                       (Success (USAGE_LIMIT - (c + 1)),
                        st\<lparr>usage_data_cache :=
                             (usage_data_cache st)[i := user_record'\<lparr>count := Some (c + 1)\<rparr>],
                           data_changed := True\<rparr>))
      | None \<Rightarrow>
          (Success (USAGE_LIMIT - 1),
           st\<lparr>usage_data_cache :=
                usage_data_cache st @
                  [\<lparr>rec_id = Some user_id, count = Some 1, week_start = Some now\<rparr>],
              data_changed := True\<rparr>))"

subsection \<open>Sequential calls of one client\<close>

text \<open>The answers of successive \<^verbatim>\<open>use_credit\<close> requests of one identifier, one per
  clock reading, each on the state the previous one left, and the final state.\<close>

fun use_credit_calls :: "string \<Rightarrow> real list \<Rightarrow> state \<Rightarrow> use_response list \<times> state" where
  "use_credit_calls user_id [] st = ([], st)"
| "use_credit_calls user_id (now # nows) st =
     (let (r, st1) = use_credit user_id now st;
          (rs, st2) = use_credit_calls user_id nows st1
      in (r # rs, st2))"

fun is_success :: "use_response \<Rightarrow> bool" where
  "is_success (Success c) = True"
| "is_success r = False"

text \<open>
  The starting point of the quota scenario: the identifier has no record, and the window
  is the one its first request opens, or it has a record with \<^verbatim>\<open>count = 0\<close> whose
  window starts at \<open>ws\<close>; every request is made no later than seven days after \<open>ws\<close>.
\<close>

definition fresh_window :: "string \<Rightarrow> real \<Rightarrow> real list \<Rightarrow> state \<Rightarrow> bool" where
  "fresh_window user_id ws nows st =
     ((case find_user user_id (usage_data_cache st) of
         None \<Rightarrow> (case nows of [] \<Rightarrow> True | now # _ \<Rightarrow> ws = now)
       | Some i \<Rightarrow> count (usage_data_cache st ! i) = Some 0
                    \<and> week_start (usage_data_cache st ! i) = Some ws)
      \<and> list_all (\<lambda>now. now \<le> ws + one_week_seconds) nows)"

text \<open>The answers expected of \<open>n\<close> requests in one window that starts with \<open>c\<close> credits
  used: \<^verbatim>\<open>success\<close> with the credits left while there are any, then
  \<^verbatim>\<open>limit_reached\<close> with no credits and the end of the window.\<close>

definition answers :: "real \<Rightarrow> int \<Rightarrow> nat \<Rightarrow> use_response list" where
  "answers ws c n =
     map (\<lambda>k. if c + int k < USAGE_LIMIT then Success (USAGE_LIMIT - 1 - c - int k)
              else LimitReached 0 (ws + one_week_seconds)) [0..<n]"

text \<open>The range the data model gives the count of a record.\<close>

definition count_in_range :: "usage_record \<Rightarrow> bool" where
  "count_in_range r = (case count r of None \<Rightarrow> False | Some c \<Rightarrow> 0 \<le> c \<and> c \<le> USAGE_LIMIT)"

subsection \<open>Startup load\<close>

text \<open>The exceptions the handlers of \<^verbatim>\<open>load_initial_data\<close> tell apart; every other
  subclass of \<^verbatim>\<open>Exception\<close> is \<open>OtherException\<close>.\<close>

datatype py_exception =
    JSONDecodeError
  | RepositoryNotFoundError
  | EntryNotFoundError
  | OtherException

datatype 'a io = Returns 'a | Raises py_exception

text \<open>
  The body of the \<^verbatim>\<open>try\<close> block. \<open>download\<close> is what creating the temporary
  directory, \<^verbatim>\<open>hf_hub_download\<close>, \<^verbatim>\<open>open\<close> and \<^verbatim>\<open>f.read()\<close> give: the text of
  the remote document or the exception raised on the way. \<open>json_loads\<close> is
  \<^verbatim>\<open>json.loads\<close>, a library function: \<open>None\<close> stands for \<^verbatim>\<open>JSONDecodeError\<close>, and a
  document that parses is taken to be an array of usage records, the format the
  application itself writes.
\<close>

definition load_body ::
  "string io \<Rightarrow> (string \<Rightarrow> usage_record list option) \<Rightarrow> py_exception + usage_record list" where
  "load_body download json_loads =
     (case download of
        Raises e \<Rightarrow> Inl e
      | Returns content \<Rightarrow>
          if content \<noteq> []
          then (case json_loads content of
                  None \<Rightarrow> Inl JSONDecodeError
                | Some records \<Rightarrow> Inr records)
          else Inr [])"

text \<open>\<^verbatim>\<open>load_initial_data\<close>: the early return without a client, then the \<^verbatim>\<open>try\<close>
  block with its four handlers in the order of the source.\<close>

definition load_initial_data ::
  "hf_api option \<Rightarrow> string io \<Rightarrow> (string \<Rightarrow> usage_record list option) \<Rightarrow> state \<Rightarrow> state" where
  "load_initial_data api download json_loads st =
     (case api of
        None \<Rightarrow> st
      | Some _ \<Rightarrow>
          (case load_body download json_loads of
             Inr records \<Rightarrow> st\<lparr>usage_data_cache := records\<rparr>
           | Inl JSONDecodeError \<Rightarrow> st\<lparr>usage_data_cache := []\<rparr>
           | Inl RepositoryNotFoundError \<Rightarrow> st\<lparr>usage_data_cache := []\<rparr>
           | Inl EntryNotFoundError \<Rightarrow> st\<lparr>usage_data_cache := []\<rparr>
           | Inl OtherException \<Rightarrow> st\<lparr>usage_data_cache := []\<rparr>))"

text \<open>The module-level initial values: an empty cache, the event not set. No publish is
  running, and \<open>hub\<close> is the remote document, if there is one.\<close>

definition startup_state :: "usage_record list option \<Rightarrow> state" where
  "startup_state hub =
     \<lparr>usage_data_cache = [], data_changed = False, hub_file = hub, publishing = Idle\<rparr>"

subsection \<open>Publishing\<close>

text \<open>
  \<^verbatim>\<open>persist_data_to_hub\<close> in the three parts between which other threads can run.

  Lines 93 to 100: under \<^verbatim>\<open>persistence_lock\<close>, return when nothing changed or there is
  no client; otherwise, under \<^verbatim>\<open>cache_lock\<close>, copy the list and clear the event. A
  second caller would wait for \<^verbatim>\<open>persistence_lock\<close>; the part is not enabled while a
  publish is running.
\<close>

definition persist_snapshot :: "hf_api option \<Rightarrow> state \<Rightarrow> state" where
  "persist_snapshot api st =
     (if publishing st \<noteq> Idle then st
      else if \<not> data_changed st \<or> api = None then st
      else st\<lparr>data_changed := False,
              publishing := Snapshotted (length (usage_data_cache st)) False\<rparr>)"

text \<open>
  Lines 105 to 107: \<^verbatim>\<open>json.dump(data_to_write, temp_f)\<close> into a new temporary file. It
  holds no lock: it reads the dictionaries of the snapshot field by field while requests
  may run, before, between and after their assignments. The document it ends up writing is
  therefore given from outside, as the result \<open>Returns doc\<close> of the step that completes the
  file, and the model only says which documents are possible. When no request has changed a
  record of the snapshot, every read finds the same values and the document is these
  records. When one has, the reads may be torn in any way, and every document with the
  \<open>n\<close> records of the snapshot (\<^verbatim>\<open>id\<close> is never assigned) is allowed: more than the code
  can write, never less.
\<close>

definition dump_may_write :: "nat \<Rightarrow> bool \<Rightarrow> usage_record list \<Rightarrow> usage_record list \<Rightarrow> bool" where
  "dump_may_write n touched cache doc =
     (if touched
      then length doc = n \<and> map rec_id doc = map rec_id (take n cache)
      else doc = take n cache)"

text \<open>The step that completes the temporary file, or the exception on the way, after
  which the handler of line 118 sets the event again. A document \<^verbatim>\<open>json.dump\<close> cannot
  write is no step.\<close>

definition persist_write :: "usage_record list io \<Rightarrow> state \<Rightarrow> state" where
  "persist_write tmp st =
     (case publishing st of
        Snapshotted n touched \<Rightarrow>
          (case tmp of
             Returns doc \<Rightarrow>
               if dump_may_write n touched (usage_data_cache st) doc
               then st\<lparr>publishing := Written doc\<rparr>
               else st
           | Raises e \<Rightarrow> st\<lparr>data_changed := True, publishing := Idle\<rparr>)
      | _ \<Rightarrow> st)"

text \<open>
  Lines 110 to 124: \<^verbatim>\<open>api.upload_file\<close> replaces the remote document by the temporary
  file; when it raises, the handler sets the event again. The \<^verbatim>\<open>finally\<close> block removes
  the temporary file, which is no part of the state, and the lock is released.
\<close>

definition persist_upload :: "unit io \<Rightarrow> state \<Rightarrow> state" where
  "persist_upload upload st =
     (case publishing st of
        Written doc \<Rightarrow>
          (case upload of
             Returns _ \<Rightarrow> st\<lparr>hub_file := Some doc, publishing := Idle\<rparr>
           | Raises e \<Rightarrow> st\<lparr>data_changed := True, publishing := Idle\<rparr>)
      | _ \<Rightarrow> st)"

text \<open>One publish cycle with no other thread running in between: what \<^verbatim>\<open>json.dump\<close>
  writes, when it does not raise, is the cache.\<close>

definition persist_data_to_hub :: "hf_api option \<Rightarrow> unit io \<Rightarrow> unit io \<Rightarrow> state \<Rightarrow> state" where
  "persist_data_to_hub api tmp upload st =
     persist_upload upload
       (persist_write
          (case tmp of Returns _ \<Rightarrow> Returns (usage_data_cache st) | Raises e \<Rightarrow> Raises e)
          (persist_snapshot api st))"

subsection \<open>Executions\<close>

text \<open>
  An execution is a sequence of events, observed between them. A request handler runs its
  whole \<^verbatim>\<open>with cache_lock\<close> block as one event, and so does the snapshot of the persister
  thread (\<^verbatim>\<open>background_persister\<close>, a call of \<^verbatim>\<open>persist_data_to_hub\<close> every 30
  seconds). Writing the temporary file and uploading it hold no \<^verbatim>\<open>cache_lock\<close>: they
  overlap requests, and their events are the moments they complete. A request whose
  assignments the writing has read in part is an event before that moment.

  A request that runs while the temporary file is being written and changes a record of
  the snapshot is noted in the phase.
\<close>

definition note_request :: "state \<Rightarrow> state \<Rightarrow> state" where
  "note_request st st' =
     (case publishing st' of
        Snapshotted n touched \<Rightarrow>
          st'\<lparr>publishing :=
                Snapshotted n
                  (touched \<or> take n (usage_data_cache st') \<noteq> take n (usage_data_cache st))\<rparr>
      | _ \<Rightarrow> st')"

datatype event =
    CheckCredit string real
  | UseCredit string real
  | PersistSnapshot
  | PersistWrite "usage_record list io"
  | PersistUpload "unit io"

fun step :: "hf_api option \<Rightarrow> state \<Rightarrow> event \<Rightarrow> state" where
  "step api st (CheckCredit user_id now) = note_request st (snd (check_credit user_id now st))"
| "step api st (UseCredit user_id now) = note_request st (snd (use_credit user_id now st))"
| "step api st PersistSnapshot = persist_snapshot api st"
| "step api st (PersistWrite tmp) = persist_write tmp st"
| "step api st (PersistUpload upload) = persist_upload upload st"

definition run :: "hf_api option \<Rightarrow> event list \<Rightarrow> state \<Rightarrow> state" where
  "run api evs st = foldl (step api) st evs"

fun is_request :: "event \<Rightarrow> bool" where
  "is_request (CheckCredit user_id now) = True"
| "is_request (UseCredit user_id now) = True"
| "is_request ev = False"

text \<open>
  What a cleared event stands for in a state \<open>st\<close> of an execution that began in \<open>st0\<close>.
  With no publish running: the cache is still the cache of \<open>st0\<close>, or the remote document
  holds exactly the cache. With a publish running: no request has changed the snapshot,
  which is the whole cache, or the document being uploaded is exactly the cache.
\<close>

definition flag_accounts :: "state \<Rightarrow> state \<Rightarrow> bool" where
  "flag_accounts st0 st =
     (data_changed st \<or>
      (case publishing st of
         Idle \<Rightarrow>
           usage_data_cache st = usage_data_cache st0 \<or>
           hub_file st = Some (usage_data_cache st)
       | Snapshotted n touched \<Rightarrow>
           \<not> touched \<and> take n (usage_data_cache st) = usage_data_cache st
       | Written doc \<Rightarrow> doc = usage_data_cache st))"

subsection \<open>Example states\<close>

definition example_record :: "string \<Rightarrow> int \<Rightarrow> real \<Rightarrow> usage_record" where
  "example_record user_id c ws = \<lparr>rec_id = Some user_id, count = Some c, week_start = Some ws\<rparr>"

definition example_state :: "usage_record list \<Rightarrow> state" where
  "example_state records =
     \<lparr>usage_data_cache = records, data_changed = False, hub_file = Some records,
      publishing = Idle\<rparr>"

definition dirty_state :: "usage_record list \<Rightarrow> state" where
  "dirty_state records =
     \<lparr>usage_data_cache = records, data_changed = True, hub_file = None, publishing = Idle\<rparr>"

text \<open>A stand-in for \<^verbatim>\<open>json.loads\<close> in the examples: it parses two documents and rejects
  every other text.\<close>

definition example_loads :: "string \<Rightarrow> usage_record list option" where
  "example_loads content =
     (if content = ''[]'' then Some []
      else if content = ''[u1 2 1000]'' then Some [example_record ''u1'' 2 1000]
      else None)"

section \<open>Properties\<close>

subsection \<open>Lookup\<close>

lemma find_user_None: "find_user u cs = None \<longleftrightarrow> (\<forall>r \<in> set cs. rec_id r \<noteq> Some u)"
  by (induction cs) auto

lemma find_user_Some:
  "find_user u cs = Some i \<Longrightarrow> i < length cs \<and> rec_id (cs ! i) = Some u"
proof (induction cs arbitrary: i)
  case Nil
  then show ?case by simp
next
  case (Cons r rs)
  then show ?case by (cases "rec_id r = Some u") auto
qed

lemma find_user_update:
  "find_user u cs = Some i \<Longrightarrow> rec_id r' = Some u \<Longrightarrow> find_user u (cs[i := r']) = Some i"
proof (induction cs arbitrary: i)
  case Nil
  then show ?case by simp
next
  case (Cons r rs)
  then show ?case by (cases "rec_id r = Some u") auto
qed

lemma find_user_append:
  "find_user u cs = None \<Longrightarrow> rec_id r' = Some u \<Longrightarrow> find_user u (cs @ [r']) = Some (length cs)"
  by (induction cs) (auto split: if_splits)

subsection \<open>Single requests\<close>

lemma use_credit_in_window:
  assumes "user_id \<noteq> []"
    and "find_user user_id (usage_data_cache st) = Some i"
    and "count (usage_data_cache st ! i) = Some c"
    and "week_start (usage_data_cache st ! i) = Some ws"
    and "now \<le> ws + one_week_seconds"
  shows "use_credit user_id now st =
           (if USAGE_LIMIT \<le> c then (LimitReached 0 (ws + one_week_seconds), st)
            else (Success (USAGE_LIMIT - (c + 1)),
                  st\<lparr>usage_data_cache :=
                       (usage_data_cache st)[i := (usage_data_cache st ! i)\<lparr>count := Some (c + 1)\<rparr>],
                     data_changed := True\<rparr>))"
  using assms by (simp add: use_credit_def dict_get_def Let_def)

lemma use_credit_new_user:
  assumes "user_id \<noteq> []"
    and "find_user user_id (usage_data_cache st) = None"
  shows "use_credit user_id now st =
           (Success (USAGE_LIMIT - 1),
            st\<lparr>usage_data_cache :=
                 usage_data_cache st @
                   [\<lparr>rec_id = Some user_id, count = Some 1, week_start = Some now\<rparr>],
               data_changed := True\<rparr>)"
  using assms by (simp add: use_credit_def)

lemma check_credit_at_limit:
  assumes "user_id \<noteq> []"
    and "find_user user_id (usage_data_cache st) = Some i"
    and "count (usage_data_cache st ! i) = Some c"
    and "USAGE_LIMIT \<le> c"
    and "week_start (usage_data_cache st ! i) = Some ws"
    and "now \<le> ws + one_week_seconds"
  shows "check_credit user_id now st = (CheckOk 0 True (ws + one_week_seconds), st)"
  using assms by (simp add: check_credit_def dict_get_def Let_def)

subsection \<open>Sequences of requests in one window\<close>

lemma answers_Suc:
  "answers ws c (Suc n) =
     (if c < USAGE_LIMIT then Success (USAGE_LIMIT - 1 - c) else LimitReached 0 (ws + one_week_seconds))
     # answers ws (if c < USAGE_LIMIT then c + 1 else c) n"
  unfolding answers_def
  by (auto simp add: map_upt_Suc simp del: upt_Suc)

lemma use_credit_calls_in_window:
  assumes "user_id \<noteq> []"
    and "find_user user_id (usage_data_cache st) = Some i"
    and "count (usage_data_cache st ! i) = Some c"
    and "week_start (usage_data_cache st ! i) = Some ws"
    and "list_all (\<lambda>now. now \<le> ws + one_week_seconds) nows"
  shows "fst (use_credit_calls user_id nows st) = answers ws c (length nows) \<and>
         find_user user_id (usage_data_cache (snd (use_credit_calls user_id nows st))) = Some i \<and>
         week_start (usage_data_cache (snd (use_credit_calls user_id nows st)) ! i) = Some ws \<and>
         count (usage_data_cache (snd (use_credit_calls user_id nows st)) ! i) =
           Some (if USAGE_LIMIT \<le> c then c else min USAGE_LIMIT (c + int (length nows)))"
  using assms
proof (induction nows arbitrary: st c)
  case Nil
  then show ?case by (simp add: answers_def)
next
  case (Cons now nows)
  have inw: "now \<le> ws + one_week_seconds" using Cons.prems(5) by simp
  note one = use_credit_in_window [OF Cons.prems(1-4) inw]
  have lt: "i < length (usage_data_cache st)" and idr: "rec_id (usage_data_cache st ! i) = Some user_id"
    using find_user_Some [OF Cons.prems(2)] by simp_all
  show ?case
  proof (cases "USAGE_LIMIT \<le> c")
    case True
    have rest: "list_all (\<lambda>now. now \<le> ws + one_week_seconds) nows" using Cons.prems(5) by simp
    note ih = Cons.IH [OF Cons.prems(1-4) rest]
    show ?thesis using True one ih
      by (simp add: answers_Suc case_prod_beta)
  next
    case False
    let ?st1 = "st\<lparr>usage_data_cache :=
                       (usage_data_cache st)[i := (usage_data_cache st ! i)\<lparr>count := Some (c + 1)\<rparr>],
                     data_changed := True\<rparr>"
    have s1: "use_credit user_id now st = (Success (USAGE_LIMIT - (c + 1)), ?st1)"
      using one False by simp
    have f1: "find_user user_id (usage_data_cache ?st1) = Some i"
      using find_user_update [OF Cons.prems(2)] idr by simp
    have c1: "count (usage_data_cache ?st1 ! i) = Some (c + 1)" using lt by simp
    have w1: "week_start (usage_data_cache ?st1 ! i) = Some ws" using lt Cons.prems(4) by simp
    have rest: "list_all (\<lambda>now. now \<le> ws + one_week_seconds) nows" using Cons.prems(5) by simp
    note ih = Cons.IH [OF Cons.prems(1) f1 c1 w1 rest]
    show ?thesis using False s1 ih
      by (simp add: answers_Suc case_prod_beta min_def)
  qed
qed

lemma answers_successes:
  "int (length (filter is_success (answers ws c n))) \<le> max 0 (USAGE_LIMIT - c)"
proof (induction n arbitrary: c)
  case 0
  then show ?case by (simp add: answers_def)
next
  case (Suc n)
  show ?case
  proof (cases "c < USAGE_LIMIT")
    case True
    then show ?thesis using Suc [of "c + 1"] by (simp add: answers_Suc)
  next
    case False
    then show ?thesis using Suc [of c] by (simp add: answers_Suc)
  qed
qed

lemma answers_nth:
  "k < n \<Longrightarrow> answers ws 0 n ! k =
     (if int k < USAGE_LIMIT then Success (USAGE_LIMIT - 1 - int k)
      else LimitReached 0 (ws + one_week_seconds))"
  by (simp add: answers_def)

lemma use_credit_calls_fresh:
  assumes "user_id \<noteq> []"
    and "fresh_window user_id ws nows st"
  shows "fst (use_credit_calls user_id nows st) = answers ws 0 (length nows) \<and>
         (nows \<noteq> [] \<longrightarrow>
            (\<exists>i. find_user user_id (usage_data_cache (snd (use_credit_calls user_id nows st))) = Some i \<and>
                 week_start (usage_data_cache (snd (use_credit_calls user_id nows st)) ! i) = Some ws \<and>
                 count (usage_data_cache (snd (use_credit_calls user_id nows st)) ! i) =
                   Some (min USAGE_LIMIT (int (length nows)))))"
proof (cases "find_user user_id (usage_data_cache st)")
  case (Some i)
  then have c0: "count (usage_data_cache st ! i) = Some 0"
    and w0: "week_start (usage_data_cache st ! i) = Some ws"
    and inw: "list_all (\<lambda>now. now \<le> ws + one_week_seconds) nows"
    using assms(2) by (simp_all add: fresh_window_def)
  show ?thesis
    using use_credit_calls_in_window [OF assms(1) Some c0 w0 inw]
    by (simp add: USAGE_LIMIT_def)
next
  case None
  show ?thesis
  proof (cases nows)
    case Nil
    then show ?thesis by (simp add: answers_def)
  next
    case (Cons now rest)
    have ws: "ws = now" and inw: "list_all (\<lambda>now. now \<le> ws + one_week_seconds) rest"
      using assms(2) None Cons by (auto simp add: fresh_window_def)
    let ?r = "\<lparr>rec_id = Some user_id, count = Some 1, week_start = Some now\<rparr>"
    let ?st1 = "st\<lparr>usage_data_cache := usage_data_cache st @ [?r], data_changed := True\<rparr>"
    have s1: "use_credit user_id now st = (Success (USAGE_LIMIT - 1), ?st1)"
      using use_credit_new_user [OF assms(1) None] by simp
    have f1: "find_user user_id (usage_data_cache ?st1) = Some (length (usage_data_cache st))"
      using find_user_append [OF None, of ?r] by simp
    have c1: "count (usage_data_cache ?st1 ! length (usage_data_cache st)) = Some 1" by simp
    have w1: "week_start (usage_data_cache ?st1 ! length (usage_data_cache st)) = Some ws"
      using ws by simp
    note rest = use_credit_calls_in_window [OF assms(1) f1 c1 w1 inw]
    show ?thesis using Cons s1 rest
      by (simp add: answers_Suc case_prod_beta USAGE_LIMIT_def)
  qed
qed

subsection \<open>Requests and the publish procedure\<close>

text \<open>
  A request never clears the event, starts or ends a publish, or writes the remote document;
  it leaves the state as it was or sets the event.
\<close>

lemma check_credit_frame:
  "publishing (snd (check_credit user_id now st)) = publishing st \<and>
   hub_file (snd (check_credit user_id now st)) = hub_file st \<and>
   (snd (check_credit user_id now st) = st \<or> data_changed (snd (check_credit user_id now st)))"
  by (auto simp add: check_credit_def Let_def split: option.splits)

lemma use_credit_frame:
  "publishing (snd (use_credit user_id now st)) = publishing st \<and>
   hub_file (snd (use_credit user_id now st)) = hub_file st \<and>
   (snd (use_credit user_id now st) = st \<or> data_changed (snd (use_credit user_id now st)))"
  by (auto simp add: use_credit_def Let_def dict_get_def USAGE_LIMIT_def split: option.splits)

lemma note_request_fields:
  "data_changed (note_request st st') = data_changed st'"
  "usage_data_cache (note_request st st') = usage_data_cache st'"
  "hub_file (note_request st st') = hub_file st'"
  by (simp_all add: note_request_def split: publish_phase.splits)

lemma note_request_same: "note_request st st = st"
  by (simp add: note_request_def split: publish_phase.splits)

lemma note_request_Idle: "publishing st' = Idle \<Longrightarrow> note_request st st' = st'"
  by (simp add: note_request_def)

lemma request_step:
  assumes "is_request ev"
  shows "hub_file (step api st ev) = hub_file st \<and>
         (publishing st = Idle \<longrightarrow> publishing (step api st ev) = Idle) \<and>
         (step api st ev = st \<or> data_changed (step api st ev))"
proof (cases ev)
  case (CheckCredit user_id now)
  show ?thesis
    using check_credit_frame [of user_id now st] CheckCredit
    by (auto simp add: note_request_fields note_request_same note_request_Idle)
next
  case (UseCredit user_id now)
  show ?thesis
    using use_credit_frame [of user_id now st] UseCredit
    by (auto simp add: note_request_fields note_request_same note_request_Idle)
qed (use assms in simp_all)

lemma request_keeps_flag:
  "is_request ev \<Longrightarrow> data_changed st \<Longrightarrow> data_changed (step api st ev)"
  using request_step [of ev api st] by auto


text \<open>
  A whole publish cycle with no other thread in between, as the source reads: nothing
  without a change or without a client; otherwise the event is cleared, and set again when
  writing the file or uploading it raises, and the remote document becomes the cache when
  neither does.
\<close>

lemma persist_data_to_hub_idle:
  assumes "publishing st = Idle"
  shows "persist_data_to_hub api tmp upload st =
           (if \<not> data_changed st \<or> api = None then st
            else case tmp of
                   Raises e \<Rightarrow> st\<lparr>data_changed := True\<rparr>
                 | Returns u \<Rightarrow>
                     (case upload of
                        Raises e \<Rightarrow> st\<lparr>data_changed := True\<rparr>
                      | Returns v \<Rightarrow>
                          st\<lparr>data_changed := False, hub_file := Some (usage_data_cache st)\<rparr>))"
  using assms
  by (cases api)
    (auto simp add: persist_data_to_hub_def persist_snapshot_def persist_write_def
      persist_upload_def dump_may_write_def split: io.splits)



text \<open>
  Without a client no part of a publish cycle does anything.
\<close>

lemma no_api_step:
  assumes "publishing st = Idle"
  shows "publishing (step None st ev) = Idle \<and> hub_file (step None st ev) = hub_file st \<and>
         (data_changed st \<longrightarrow> data_changed (step None st ev))"
proof (cases "is_request ev")
  case True
  then show ?thesis
    using request_step [OF True, of None st] request_keeps_flag [OF True, of st None] assms
    by simp
next
  case False
  then show ?thesis using assms
    by (cases ev) (simp_all add: persist_snapshot_def persist_write_def persist_upload_def)
qed

lemma no_api_run:
  "publishing st = Idle \<Longrightarrow>
   publishing (run None evs st) = Idle \<and> hub_file (run None evs st) = hub_file st \<and>
   (data_changed st \<longrightarrow> data_changed (run None evs st))"
  unfolding run_def
proof (induction evs arbitrary: st)
  case Nil
  then show ?case by simp
next
  case (Cons ev evs)
  show ?case
    using no_api_step [OF Cons.prems, of ev] Cons.IH [of "step None st ev"]
    by simp
qed

text \<open>Every step keeps what a cleared event stands for.\<close>

lemma step_flag_accounts:
  assumes "flag_accounts st0 st"
  shows "flag_accounts st0 (step api st ev)"
proof (cases "is_request ev")
  case True
  from request_step [OF True, of api st] have "step api st ev = st \<or> data_changed (step api st ev)"
    by simp
  then show ?thesis
  proof
    assume "step api st ev = st"
    then show ?thesis using assms by simp
  next
    assume "data_changed (step api st ev)"
    then show ?thesis by (simp add: flag_accounts_def)
  qed
next
  case False
  then show ?thesis using assms
    by (cases ev)
      (auto simp add: flag_accounts_def persist_snapshot_def persist_write_def
        persist_upload_def dump_may_write_def split: publish_phase.splits io.splits)
qed

section \<open>The claims\<close>

text \<open>
  C1. Quota of one window. An identifier with no record, or with a record whose count is 0,
  makes any number of \<^verbatim>\<open>use_credit\<close> requests one after the other, all within seven
  days of the start \<open>ws\<close> of its window. At most \<^verbatim>\<open>USAGE_LIMIT\<close> of the answers are
  \<^verbatim>\<open>success\<close>: the first five are, with 4, 3, 2, 1 and 0 credits remaining, and every
  later answer is \<^verbatim>\<open>limit_reached\<close> with no credits remaining. After five or more
  requests, \<^verbatim>\<open>check_credit\<close> in the same window answers no credits remaining and limit
  reached, and changes nothing.
\<close>

theorem use_credit_quota:
  assumes "user_id \<noteq> []"
    and "fresh_window user_id ws nows st"
  shows "int (length (filter is_success (fst (use_credit_calls user_id nows st)))) \<le> USAGE_LIMIT \<and>
         length (fst (use_credit_calls user_id nows st)) = length nows \<and>
         (\<forall>k < length nows.
            fst (use_credit_calls user_id nows st) ! k =
              (if int k < USAGE_LIMIT then Success (USAGE_LIMIT - 1 - int k)
               else LimitReached 0 (ws + one_week_seconds))) \<and>
         (USAGE_LIMIT \<le> int (length nows) \<longrightarrow>
            (\<forall>now \<le> ws + one_week_seconds.
               check_credit user_id now (snd (use_credit_calls user_id nows st)) =
                 (CheckOk 0 True (ws + one_week_seconds), snd (use_credit_calls user_id nows st))))"
proof -
  note fresh = use_credit_calls_fresh [OF assms]
  have ans: "fst (use_credit_calls user_id nows st) = answers ws 0 (length nows)"
    using fresh by simp
  have p1: "int (length (filter is_success (fst (use_credit_calls user_id nows st)))) \<le> USAGE_LIMIT"
    using answers_successes [of ws 0 "length nows"] ans by (simp add: USAGE_LIMIT_def)
  have p2: "length (fst (use_credit_calls user_id nows st)) = length nows"
    using ans by (simp add: answers_def)
  have p3: "\<forall>k < length nows.
            fst (use_credit_calls user_id nows st) ! k =
              (if int k < USAGE_LIMIT then Success (USAGE_LIMIT - 1 - int k)
               else LimitReached 0 (ws + one_week_seconds))"
    using ans answers_nth by simp
  have p4: "USAGE_LIMIT \<le> int (length nows) \<longrightarrow>
            (\<forall>now \<le> ws + one_week_seconds.
               check_credit user_id now (snd (use_credit_calls user_id nows st)) =
                 (CheckOk 0 True (ws + one_week_seconds), snd (use_credit_calls user_id nows st)))"
  proof (intro impI allI)
    fix now
    assume full: "USAGE_LIMIT \<le> int (length nows)" and inw: "now \<le> ws + one_week_seconds"
    then have "nows \<noteq> []" by (auto simp add: USAGE_LIMIT_def)
    then obtain i where
      f: "find_user user_id (usage_data_cache (snd (use_credit_calls user_id nows st))) = Some i" and
      w: "week_start (usage_data_cache (snd (use_credit_calls user_id nows st)) ! i) = Some ws" and
      c: "count (usage_data_cache (snd (use_credit_calls user_id nows st)) ! i) =
            Some (min USAGE_LIMIT (int (length nows)))"
      using fresh by blast
    have c': "count (usage_data_cache (snd (use_credit_calls user_id nows st)) ! i) = Some USAGE_LIMIT"
      using c full by (simp add: min_def)
    show "check_credit user_id now (snd (use_credit_calls user_id nows st)) =
            (CheckOk 0 True (ws + one_week_seconds), snd (use_credit_calls user_id nows st))"
      using check_credit_at_limit [OF assms(1) f c' _ w inw] by simp
  qed
  show ?thesis using p1 p2 p3 p4 by blast
qed

text \<open>
  The scenario of six requests of \<open>u1\<close> on an empty cache, then \<^verbatim>\<open>check_credit\<close>.
\<close>

theorem use_credit_quota_witness:
  "''u1'' \<noteq> [] \<and>
   fresh_window ''u1'' 1000 [1000, 1001, 1002, 1003, 1004, 1005] (startup_state None) \<and>
   fst (use_credit_calls ''u1'' [1000, 1001, 1002, 1003, 1004, 1005] (startup_state None)) =
     [Success 4, Success 3, Success 2, Success 1, Success 0, LimitReached 0 605800] \<and>
   fst (check_credit ''u1'' 1006
         (snd (use_credit_calls ''u1'' [1000, 1001, 1002, 1003, 1004, 1005] (startup_state None)))) =
     CheckOk 0 True 605800"
proof -
  let ?nows = "[1000, 1001, 1002, 1003, 1004, 1005] :: real list"
  have h1: "''u1'' \<noteq> []" by simp
  have h2: "fresh_window ''u1'' 1000 ?nows (startup_state None)"
    by (simp add: fresh_window_def startup_state_def one_week_seconds_def)
  note q = use_credit_quota [OF h1 h2]
  have len: "length (fst (use_credit_calls ''u1'' ?nows (startup_state None))) = 6"
    using q by simp
  have nth: "\<And>k. k < 6 \<Longrightarrow> fst (use_credit_calls ''u1'' ?nows (startup_state None)) ! k =
              (if int k < USAGE_LIMIT then Success (USAGE_LIMIT - 1 - int k)
               else LimitReached 0 (1000 + one_week_seconds))"
    using q by simp
  have answers: "fst (use_credit_calls ''u1'' ?nows (startup_state None)) =
      [Success 4, Success 3, Success 2, Success 1, Success 0, LimitReached 0 605800]"
    using len nth [of 0] nth [of 1] nth [of 2] nth [of 3] nth [of 4] nth [of 5]
    by (simp add: list_eq_iff_nth_eq USAGE_LIMIT_def one_week_seconds_def less_Suc_eq
        numeral_eq_Suc)
  have "(1006::real) \<le> 1000 + one_week_seconds" by (simp add: one_week_seconds_def)
  then have chk: "fst (check_credit ''u1'' 1006 (snd (use_credit_calls ''u1'' ?nows (startup_state None)))) =
     CheckOk 0 True 605800"
    using q by (simp add: USAGE_LIMIT_def one_week_seconds_def)
  show ?thesis using h1 h2 answers chk by simp
qed

text \<open>
  C2 as stated: a record would be reset as soon as \<open>now \<ge> week_start + 7 * 24 * 3600\<close>.
  The handlers test \<^verbatim>\<open>week_start < now - one_week_seconds\<close>: at the very end of the
  window, \<open>now = week_start + 7 * 24 * 3600\<close>, a record with 5 credits used is not reset,
  and both handlers answer that the limit is reached.
\<close>

theorem window_reset_counterexample:
  "(605800::real) \<ge> 1000 + one_week_seconds \<and>
   find_user ''u2'' (usage_data_cache (example_state [example_record ''u2'' 5 1000])) = Some 0 \<and>
   check_credit ''u2'' 605800 (example_state [example_record ''u2'' 5 1000]) =
     (CheckOk 0 True 605800, example_state [example_record ''u2'' 5 1000]) \<and>
   use_credit ''u2'' 605800 (example_state [example_record ''u2'' 5 1000]) =
     (LimitReached 0 605800, example_state [example_record ''u2'' 5 1000]) \<and>
   usage_data_cache (example_state [example_record ''u2'' 5 1000]) ! 0 = example_record ''u2'' 5 1000"
  by (simp add: check_credit_def use_credit_def dict_get_def Let_def USAGE_LIMIT_def
      example_state_def example_record_def one_week_seconds_def)

text \<open>
  C2, amended. For the record of the identifier, with a missing \<^verbatim>\<open>week_start\<close> read
  as 0. When \<open>now\<close> is later than \<^verbatim>\<open>week_start\<close> plus seven days, the request first
  sets \<^verbatim>\<open>count = 0\<close> and \<^verbatim>\<open>week_start = now\<close> and then evaluates the quota, so
  \<^verbatim>\<open>check_credit\<close> answers all credits and \<^verbatim>\<open>use_credit\<close> counts the first credit
  of the new window, and the event is set. When \<open>now\<close> is no later than that, nothing is
  reset: \<^verbatim>\<open>check_credit\<close> leaves the whole state as it is, and \<^verbatim>\<open>use_credit\<close>
  evaluates the quota on the stored count: it denies the request and leaves the whole
  state as it is when the count has reached the limit, it raises \<^verbatim>\<open>KeyError\<close> and
  leaves the state as it is when the record has no count, and otherwise it adds one to the
  stored count, sets the event and changes nothing else.
\<close>

theorem window_reset:
  assumes "user_id \<noteq> []"
    and "find_user user_id (usage_data_cache st) = Some i"
  shows "(dict_get (week_start (usage_data_cache st ! i)) 0 + one_week_seconds < now \<longrightarrow>
            check_credit user_id now st =
              (CheckOk USAGE_LIMIT False 0,
               st\<lparr>usage_data_cache :=
                    (usage_data_cache st)[i := (usage_data_cache st ! i)\<lparr>count := Some 0, week_start := Some now\<rparr>],
                  data_changed := True\<rparr>) \<and>
            use_credit user_id now st =
              (Success (USAGE_LIMIT - 1),
               st\<lparr>usage_data_cache :=
                    (usage_data_cache st)[i := (usage_data_cache st ! i)\<lparr>count := Some 1, week_start := Some now\<rparr>],
                  data_changed := True\<rparr>)) \<and>
         (now \<le> dict_get (week_start (usage_data_cache st ! i)) 0 + one_week_seconds \<longrightarrow>
            snd (check_credit user_id now st) = st \<and>
            week_start (usage_data_cache (snd (use_credit user_id now st)) ! i) =
              week_start (usage_data_cache st ! i) \<and>
            use_credit user_id now st =
              (if USAGE_LIMIT \<le> dict_get (count (usage_data_cache st ! i)) 0
               then (LimitReached 0
                       (dict_get (week_start (usage_data_cache st ! i)) now + one_week_seconds), st)
               else case count (usage_data_cache st ! i) of
                      None \<Rightarrow> (KeyError, st)
                    | Some c \<Rightarrow>
                        (Success (USAGE_LIMIT - (c + 1)),
                         st\<lparr>usage_data_cache :=
                              (usage_data_cache st)[i := (usage_data_cache st ! i)\<lparr>count := Some (c + 1)\<rparr>],
                            data_changed := True\<rparr>)))"
proof -
  have lt: "i < length (usage_data_cache st)"
    using find_user_Some [OF assms(2)] by simp
  have swap: "\<And>(r::usage_record) a b. r\<lparr>week_start := a, count := b\<rparr> = r\<lparr>count := b, week_start := a\<rparr>"
    by simp
  have expired: "dict_get (week_start (usage_data_cache st ! i)) 0 + one_week_seconds < now \<longrightarrow>
            check_credit user_id now st =
              (CheckOk USAGE_LIMIT False 0,
               st\<lparr>usage_data_cache :=
                    (usage_data_cache st)[i := (usage_data_cache st ! i)\<lparr>count := Some 0, week_start := Some now\<rparr>],
                  data_changed := True\<rparr>) \<and>
            use_credit user_id now st =
              (Success (USAGE_LIMIT - 1),
               st\<lparr>usage_data_cache :=
                    (usage_data_cache st)[i := (usage_data_cache st ! i)\<lparr>count := Some 1, week_start := Some now\<rparr>],
                  data_changed := True\<rparr>)"
    using assms lt
    by (auto simp add: check_credit_def use_credit_def dict_get_def Let_def USAGE_LIMIT_def swap
        split: option.splits)
  have open_check: "now \<le> dict_get (week_start (usage_data_cache st ! i)) 0 + one_week_seconds \<longrightarrow>
            snd (check_credit user_id now st) = st"
    using assms
    by (auto simp add: check_credit_def dict_get_def Let_def split: option.splits)
  have open_use: "now \<le> dict_get (week_start (usage_data_cache st ! i)) 0 + one_week_seconds \<longrightarrow>
            use_credit user_id now st =
              (if USAGE_LIMIT \<le> dict_get (count (usage_data_cache st ! i)) 0
               then (LimitReached 0
                       (dict_get (week_start (usage_data_cache st ! i)) now + one_week_seconds), st)
               else case count (usage_data_cache st ! i) of
                      None \<Rightarrow> (KeyError, st)
                    | Some c \<Rightarrow>
                        (Success (USAGE_LIMIT - (c + 1)),
                         st\<lparr>usage_data_cache :=
                              (usage_data_cache st)[i := (usage_data_cache st ! i)\<lparr>count := Some (c + 1)\<rparr>],
                            data_changed := True\<rparr>))"
    using assms
    by (auto simp add: use_credit_def dict_get_def Let_def split: option.splits)
  have open_ws: "now \<le> dict_get (week_start (usage_data_cache st ! i)) 0 + one_week_seconds \<longrightarrow>
            week_start (usage_data_cache (snd (use_credit user_id now st)) ! i) =
              week_start (usage_data_cache st ! i)"
    using assms lt
    by (auto simp add: use_credit_def dict_get_def Let_def split: option.splits)
  show ?thesis using expired open_check open_use open_ws by blast
qed

text \<open>
  The scenario of \<open>u2\<close>, 5 credits used in a window that started 8 days ago; and in an open
  window, one request of a client with 4 credits used and one of a client at the limit.
\<close>

theorem window_reset_witness:
  "''u2'' \<noteq> [] \<and>
   find_user ''u2'' (usage_data_cache (example_state [example_record ''u2'' 5 308800])) = Some 0 \<and>
   (308800::real) + 8 * 24 * 60 * 60 = 1000000 \<and>
   check_credit ''u2'' 1000000 (example_state [example_record ''u2'' 5 308800]) =
     (CheckOk 5 False 0,
      \<lparr>usage_data_cache = [example_record ''u2'' 0 1000000], data_changed = True,
       hub_file = Some [example_record ''u2'' 5 308800], publishing = Idle\<rparr>) \<and>
   use_credit ''u2'' 1000000 (example_state [example_record ''u2'' 5 308800]) =
     (Success 4,
      \<lparr>usage_data_cache = [example_record ''u2'' 1 1000000], data_changed = True,
       hub_file = Some [example_record ''u2'' 5 308800], publishing = Idle\<rparr>) \<and>
   find_user ''u2'' (usage_data_cache (example_state [example_record ''u2'' 4 1000])) = Some 0 \<and>
   (2000::real) \<le> 1000 + one_week_seconds \<and>
   snd (check_credit ''u2'' 2000 (example_state [example_record ''u2'' 4 1000])) =
     example_state [example_record ''u2'' 4 1000] \<and>
   use_credit ''u2'' 2000 (example_state [example_record ''u2'' 4 1000]) =
     (Success 0,
      \<lparr>usage_data_cache = [example_record ''u2'' 5 1000], data_changed = True,
       hub_file = Some [example_record ''u2'' 4 1000], publishing = Idle\<rparr>) \<and>
   use_credit ''u2'' 2000 (example_state [example_record ''u2'' 5 1000]) =
     (LimitReached 0 605800, example_state [example_record ''u2'' 5 1000])"
proof -
  let ?st = "example_state [example_record ''u2'' 5 308800]"
  let ?a = "example_state [example_record ''u2'' 4 1000]"
  let ?b = "example_state [example_record ''u2'' 5 1000]"
  have h1: "''u2'' \<noteq> []" by simp
  have h2: "find_user ''u2'' (usage_data_cache ?st) = Some 0"
    by (simp add: example_state_def example_record_def)
  have h3: "dict_get (week_start (usage_data_cache ?st ! 0)) 0 + one_week_seconds < 1000000"
    by (simp add: example_state_def example_record_def dict_get_def one_week_seconds_def)
  have fa: "find_user ''u2'' (usage_data_cache ?a) = Some 0"
    by (simp add: example_state_def example_record_def)
  have fb: "find_user ''u2'' (usage_data_cache ?b) = Some 0"
    by (simp add: example_state_def example_record_def)
  have oa: "2000 \<le> dict_get (week_start (usage_data_cache ?a ! 0)) 0 + one_week_seconds"
    by (simp add: example_state_def example_record_def dict_get_def one_week_seconds_def)
  have ob: "2000 \<le> dict_get (week_start (usage_data_cache ?b ! 0)) 0 + one_week_seconds"
    by (simp add: example_state_def example_record_def dict_get_def one_week_seconds_def)
  have w: "(2000::real) \<le> 1000 + one_week_seconds" by (simp add: one_week_seconds_def)
  have p1: "check_credit ''u2'' 1000000 ?st =
     (CheckOk 5 False 0,
      \<lparr>usage_data_cache = [example_record ''u2'' 0 1000000], data_changed = True,
       hub_file = Some [example_record ''u2'' 5 308800], publishing = Idle\<rparr>) \<and>
   use_credit ''u2'' 1000000 ?st =
     (Success 4,
      \<lparr>usage_data_cache = [example_record ''u2'' 1 1000000], data_changed = True,
       hub_file = Some [example_record ''u2'' 5 308800], publishing = Idle\<rparr>)"
    using h3 window_reset [OF h1 h2, where now = 1000000]
    by (simp add: example_state_def example_record_def USAGE_LIMIT_def)
  have p2: "snd (check_credit ''u2'' 2000 ?a) = ?a \<and>
   use_credit ''u2'' 2000 ?a =
     (Success 0,
      \<lparr>usage_data_cache = [example_record ''u2'' 5 1000], data_changed = True,
       hub_file = Some [example_record ''u2'' 4 1000], publishing = Idle\<rparr>)"
    using oa window_reset [OF h1 fa, where now = 2000]
    by (simp add: example_state_def example_record_def USAGE_LIMIT_def dict_get_def)
  have p3: "use_credit ''u2'' 2000 ?b = (LimitReached 0 605800, ?b)"
    using ob window_reset [OF h1 fb, where now = 2000]
    by (simp add: example_state_def example_record_def USAGE_LIMIT_def dict_get_def
        one_week_seconds_def)
  show ?thesis using h1 h2 fa w p1 p2 p3 by simp
qed

text \<open>
  C3 as stated: the reset timestamp of \<^verbatim>\<open>check_credit\<close> would be the start of the
  window plus seven days whether or not the limit is reached. A client with 2 credits used
  in a window started at 1000 is answered 3 credits, limit not reached, and the reset
  timestamp 0.
\<close>

theorem check_credit_reset_timestamp_counterexample:
  "find_user ''u1'' (usage_data_cache (example_state [example_record ''u1'' 2 1000])) = Some 0 \<and>
   check_credit ''u1'' 2000 (example_state [example_record ''u1'' 2 1000]) =
     (CheckOk 3 False 0, example_state [example_record ''u1'' 2 1000]) \<and>
   week_start (usage_data_cache (example_state [example_record ''u1'' 2 1000]) ! 0) = Some 1000 \<and>
   (0::real) \<noteq> 1000 + one_week_seconds"
  by (simp add: check_credit_def dict_get_def Let_def USAGE_LIMIT_def example_state_def
      example_record_def one_week_seconds_def)

text \<open>
  C3, amended. For an identifier with a record, \<^verbatim>\<open>check_credit\<close> answers
  \<^verbatim>\<open>limit_reached\<close> exactly when no credit remains; the reset timestamp is then the
  \<^verbatim>\<open>week_start\<close> of the record as the call leaves it (the clock reading if the record
  has none) plus seven days, and it is 0 when the limit is not reached.
\<close>

theorem check_credit_reset_timestamp:
  assumes "user_id \<noteq> []"
    and "find_user user_id (usage_data_cache st) = Some i"
  shows "\<exists>c l. fst (check_credit user_id now st) =
           CheckOk c l
             (if l then dict_get (week_start (usage_data_cache (snd (check_credit user_id now st)) ! i)) now
                         + one_week_seconds
              else 0)
         \<and> l = (c = 0)"
  using assms find_user_Some [OF assms(2)]
  by (simp add: check_credit_def dict_get_def Let_def USAGE_LIMIT_def)

theorem check_credit_reset_timestamp_witness:
  "''u1'' \<noteq> [] \<and>
   find_user ''u1'' (usage_data_cache (example_state [example_record ''u1'' 5 1000])) = Some 0 \<and>
   check_credit ''u1'' 2000 (example_state [example_record ''u1'' 5 1000]) =
     (CheckOk 0 True 605800, example_state [example_record ''u1'' 5 1000]) \<and>
   (\<exists>c l. fst (check_credit ''u1'' 2000 (example_state [example_record ''u1'' 5 1000])) =
           CheckOk c l
             (if l then dict_get (week_start (usage_data_cache (snd (check_credit ''u1'' 2000 (example_state [example_record ''u1'' 5 1000]))) ! 0)) 2000
                         + one_week_seconds
              else 0)
         \<and> l = (c = 0))"
proof -
  let ?st = "example_state [example_record ''u1'' 5 1000]"
  have h1: "''u1'' \<noteq> []" by simp
  have h2: "find_user ''u1'' (usage_data_cache ?st) = Some 0"
    by (simp add: example_state_def example_record_def)
  have ev: "check_credit ''u1'' 2000 ?st = (CheckOk 0 True 605800, ?st)"
    by (simp add: check_credit_def example_state_def example_record_def dict_get_def Let_def
        USAGE_LIMIT_def one_week_seconds_def)
  show ?thesis
    using h1 h2 ev check_credit_reset_timestamp [OF h1 h2, of 2000] by blast
qed

text \<open>
  C4. A denied request changes nothing. When the record of the identifier has a count of
  at least \<^verbatim>\<open>USAGE_LIMIT\<close> and the request comes no later than seven days after its
  \<^verbatim>\<open>week_start\<close>, \<^verbatim>\<open>use_credit\<close> answers \<^verbatim>\<open>limit_reached\<close> with no credits
  remaining and the end of the window, and the state it leaves is the state it found: the
  record, every other record and the event \<^verbatim>\<open>data_changed\<close>.
\<close>

theorem use_credit_denied:
  assumes "user_id \<noteq> []"
    and "find_user user_id (usage_data_cache st) = Some i"
    and "count (usage_data_cache st ! i) = Some c"
    and "USAGE_LIMIT \<le> c"
    and "week_start (usage_data_cache st ! i) = Some ws"
    and "now \<le> ws + one_week_seconds"
  shows "use_credit user_id now st = (LimitReached 0 (ws + one_week_seconds), st)"
  using assms by (simp add: use_credit_def dict_get_def Let_def)

theorem use_credit_denied_witness:
  "''u1'' \<noteq> [] \<and>
   find_user ''u1'' (usage_data_cache (example_state [example_record ''u2'' 3 500, example_record ''u1'' 5 1000])) = Some 1 \<and>
   count (usage_data_cache (example_state [example_record ''u2'' 3 500, example_record ''u1'' 5 1000]) ! 1) = Some 5 \<and>
   USAGE_LIMIT \<le> 5 \<and>
   week_start (usage_data_cache (example_state [example_record ''u2'' 3 500, example_record ''u1'' 5 1000]) ! 1) = Some 1000 \<and>
   (2000::real) \<le> 1000 + one_week_seconds \<and>
   use_credit ''u1'' 2000 (example_state [example_record ''u2'' 3 500, example_record ''u1'' 5 1000]) =
     (LimitReached 0 605800, example_state [example_record ''u2'' 3 500, example_record ''u1'' 5 1000])"
proof -
  let ?st = "example_state [example_record ''u2'' 3 500, example_record ''u1'' 5 1000]"
  have h1: "''u1'' \<noteq> []" by simp
  have h2: "find_user ''u1'' (usage_data_cache ?st) = Some 1"
    by (simp add: example_state_def example_record_def)
  have h3: "count (usage_data_cache ?st ! 1) = Some 5"
    by (simp add: example_state_def example_record_def)
  have h4: "USAGE_LIMIT \<le> 5" by (simp add: USAGE_LIMIT_def)
  have h5: "week_start (usage_data_cache ?st ! 1) = Some 1000"
    by (simp add: example_state_def example_record_def)
  have h6: "(2000::real) \<le> 1000 + one_week_seconds" by (simp add: one_week_seconds_def)
  have w: "(1000::real) + one_week_seconds = 605800" by (simp add: one_week_seconds_def)
  show ?thesis
    using h1 h2 h3 h4 h5 h6 use_credit_denied [OF h1 h2 h3 h4 h5 h6] w by simp
qed



text \<open>
  C6 as stated: once set, the event would stay set until a publish cycle has succeeded.
  The cycle clears it when it takes the snapshot, before the upload: after one request and
  the snapshot the event is cleared although nothing has been uploaded, and a failed upload
  sets it again.
\<close>

theorem flag_accounts_run_counterexample:
  "data_changed (run (Some HfApi) [UseCredit ''u1'' 1000] (startup_state None)) \<and>
   run (Some HfApi) [UseCredit ''u1'' 1000, PersistSnapshot] (startup_state None) =
     \<lparr>usage_data_cache = [example_record ''u1'' 1 1000], data_changed = False,
      hub_file = None, publishing = Snapshotted 1 False\<rparr> \<and>
   run (Some HfApi)
     [UseCredit ''u1'' 1000, PersistSnapshot, PersistWrite (Returns [example_record ''u1'' 1 1000]),
      PersistUpload (Raises OtherException)] (startup_state None) =
     \<lparr>usage_data_cache = [example_record ''u1'' 1 1000], data_changed = True,
      hub_file = None, publishing = Idle\<rparr>"
  by (simp add: run_def use_credit_def startup_state_def example_record_def USAGE_LIMIT_def
      persist_snapshot_def persist_write_def persist_upload_def note_request_def
      dump_may_write_def)

text \<open>
  C6, amended. Take any execution: requests, snapshots, completed or failed writings of
  the temporary file and completed or failed uploads, in any order, from a state with no
  publish running, and in particular from the state the startup load leaves, whatever it
  loaded. At every point between two of its events at which the event
  \<^verbatim>\<open>data_changed\<close> is cleared:
  \<^item> if no publish is running, the cache is still what it was at the start of the
    execution, or the remote document holds exactly the cache;
  \<^item> if the temporary file is being written, no request has changed the records of the
    snapshot, and the snapshot is the whole cache;
  \<^item> if the upload is running, the document being uploaded is exactly the cache.
\<close>

theorem flag_accounts_run:
  "(publishing st0 = Idle \<longrightarrow> flag_accounts st0 (run api evs st0)) \<and>
   flag_accounts (load_initial_data api download json_loads (startup_state hub))
     (run api evs (load_initial_data api download json_loads (startup_state hub)))"
proof -
  have start: "publishing st = Idle \<Longrightarrow> flag_accounts st st" for st
    by (simp add: flag_accounts_def)
  have steps: "flag_accounts st1 st \<Longrightarrow> flag_accounts st1 (foldl (step api) st evs)" for st1 st
    by (induction evs arbitrary: st) (simp_all add: step_flag_accounts)
  have idle: "publishing (load_initial_data api download json_loads (startup_state hub)) = Idle"
    by (simp add: load_initial_data_def startup_state_def
        split: option.splits sum.splits py_exception.splits)
  show ?thesis
    using start steps idle by (simp add: run_def)
qed

text \<open>
  A startup whose load fails on a remote document that is there; then a request, a
  snapshot, a second request of the same client while the file is written, a stale
  document uploaded; then a second cycle.
\<close>

theorem flag_accounts_run_witness:
  "load_initial_data (Some HfApi) (Returns ''[u1 2'') example_loads
     (startup_state (Some [example_record ''u1'' 2 1000])) =
     \<lparr>usage_data_cache = [], data_changed = False,
      hub_file = Some [example_record ''u1'' 2 1000], publishing = Idle\<rparr> \<and>
   run (Some HfApi)
     [UseCredit ''u1'' 2000, PersistSnapshot, UseCredit ''u1'' 2001,
      PersistWrite (Returns [example_record ''u1'' 1 2000]), PersistUpload (Returns ())]
     (load_initial_data (Some HfApi) (Returns ''[u1 2'') example_loads
        (startup_state (Some [example_record ''u1'' 2 1000]))) =
     \<lparr>usage_data_cache = [example_record ''u1'' 2 2000], data_changed = True,
      hub_file = Some [example_record ''u1'' 1 2000], publishing = Idle\<rparr> \<and>
   run (Some HfApi)
     [UseCredit ''u1'' 2000, PersistSnapshot, UseCredit ''u1'' 2001,
      PersistWrite (Returns [example_record ''u1'' 1 2000]), PersistUpload (Returns ()),
      PersistSnapshot, PersistWrite (Returns [example_record ''u1'' 2 2000]),
      PersistUpload (Returns ())]
     (load_initial_data (Some HfApi) (Returns ''[u1 2'') example_loads
        (startup_state (Some [example_record ''u1'' 2 1000]))) =
     \<lparr>usage_data_cache = [example_record ''u1'' 2 2000], data_changed = False,
      hub_file = Some [example_record ''u1'' 2 2000], publishing = Idle\<rparr> \<and>
   flag_accounts
     (load_initial_data (Some HfApi) (Returns ''[u1 2'') example_loads
        (startup_state (Some [example_record ''u1'' 2 1000])))
     (run (Some HfApi)
        [UseCredit ''u1'' 2000, PersistSnapshot, UseCredit ''u1'' 2001,
         PersistWrite (Returns [example_record ''u1'' 1 2000]), PersistUpload (Returns ()),
         PersistSnapshot, PersistWrite (Returns [example_record ''u1'' 2 2000]),
         PersistUpload (Returns ())]
        (load_initial_data (Some HfApi) (Returns ''[u1 2'') example_loads
           (startup_state (Some [example_record ''u1'' 2 1000]))))"
proof -
  let ?st0 = "load_initial_data (Some HfApi) (Returns ''[u1 2'') example_loads
     (startup_state (Some [example_record ''u1'' 2 1000]))"
  let ?evs = "[UseCredit ''u1'' 2000, PersistSnapshot, UseCredit ''u1'' 2001,
      PersistWrite (Returns [example_record ''u1'' 1 2000]), PersistUpload (Returns ()),
      PersistSnapshot, PersistWrite (Returns [example_record ''u1'' 2 2000]),
      PersistUpload (Returns ())]"
  have st0: "?st0 =
     \<lparr>usage_data_cache = [], data_changed = False,
      hub_file = Some [example_record ''u1'' 2 1000], publishing = Idle\<rparr>"
    by (simp add: load_initial_data_def load_body_def example_loads_def startup_state_def)
  have h: "publishing ?st0 = Idle" unfolding st0 by simp
  have mid: "run (Some HfApi)
     [UseCredit ''u1'' 2000, PersistSnapshot, UseCredit ''u1'' 2001,
      PersistWrite (Returns [example_record ''u1'' 1 2000]), PersistUpload (Returns ())] ?st0 =
     \<lparr>usage_data_cache = [example_record ''u1'' 2 2000], data_changed = True,
      hub_file = Some [example_record ''u1'' 1 2000], publishing = Idle\<rparr>"
    unfolding st0
    by (simp add: run_def use_credit_def example_record_def USAGE_LIMIT_def dict_get_def Let_def
        one_week_seconds_def persist_snapshot_def persist_write_def persist_upload_def
        note_request_def dump_may_write_def)
  have fin: "run (Some HfApi) ?evs ?st0 =
     \<lparr>usage_data_cache = [example_record ''u1'' 2 2000], data_changed = False,
      hub_file = Some [example_record ''u1'' 2 2000], publishing = Idle\<rparr>"
    unfolding st0
    by (simp add: run_def use_credit_def example_record_def USAGE_LIMIT_def dict_get_def Let_def
        one_week_seconds_def persist_snapshot_def persist_write_def persist_upload_def
        note_request_def dump_may_write_def)
  have acc: "flag_accounts ?st0 (run (Some HfApi) ?evs ?st0)"
    using h flag_accounts_run [where ?st0.0 = ?st0 and api = "Some HfApi" and evs = ?evs]
    by blast
  show ?thesis using st0 mid fin acc by simp
qed

text \<open>
  C7 as stated: after any \<^verbatim>\<open>use_credit\<close> the count of the record would be in the
  range from 0 to \<^verbatim>\<open>USAGE_LIMIT\<close>, whatever the cache held. A record loaded with
  7 credits used in an open window is denied and keeps its 7.
\<close>

theorem count_range_counterexample:
  "find_user ''u1'' (usage_data_cache (example_state [example_record ''u1'' 7 1000])) = Some 0 \<and>
   use_credit ''u1'' 2000 (example_state [example_record ''u1'' 7 1000]) =
     (LimitReached 0 605800, example_state [example_record ''u1'' 7 1000]) \<and>
   count (usage_data_cache (snd (use_credit ''u1'' 2000 (example_state [example_record ''u1'' 7 1000]))) ! 0)
     = Some 7 \<and>
   \<not> (7 \<le> USAGE_LIMIT)"
  by (simp add: use_credit_def dict_get_def Let_def USAGE_LIMIT_def
      example_state_def example_record_def one_week_seconds_def)

text \<open>
  C7, amended. After \<^verbatim>\<open>use_credit\<close> the identifier has a record, the one it had or a
  new one at the end of the cache.
  \<^item> If it had none, the count of the new record is 1.
  \<^item> If the request comes later than seven days after \<^verbatim>\<open>week_start\<close>, the count is
    reset whatever it was: it is 1 after \<^verbatim>\<open>use_credit\<close>, which counts the request, and
    0 after \<^verbatim>\<open>check_credit\<close>.
  \<^item> If the request comes no later than that, a stored count below \<^verbatim>\<open>USAGE_LIMIT\<close>
    grows by one, a stored count of \<^verbatim>\<open>USAGE_LIMIT\<close> or more stays what it is, and a
    record without a count stays without one.
  \<^item> So a count in the range from 0 to \<^verbatim>\<open>USAGE_LIMIT\<close> stays in it; and in an open
    window the count is in the range afterwards exactly when the stored count was at least
    -1 and at most \<^verbatim>\<open>USAGE_LIMIT\<close>: a record loaded with a count above the limit
    keeps it.
\<close>

theorem count_range:
  assumes "user_id \<noteq> []"
  shows "case find_user user_id (usage_data_cache st) of
           None \<Rightarrow>
             find_user user_id (usage_data_cache (snd (use_credit user_id now st))) =
               Some (length (usage_data_cache st)) \<and>
             count (usage_data_cache (snd (use_credit user_id now st)) ! length (usage_data_cache st)) =
               Some 1
         | Some i \<Rightarrow>
             find_user user_id (usage_data_cache (snd (use_credit user_id now st))) = Some i \<and>
             (count_in_range (usage_data_cache st ! i) \<longrightarrow>
                count_in_range (usage_data_cache (snd (use_credit user_id now st)) ! i)) \<and>
             (dict_get (week_start (usage_data_cache st ! i)) 0 + one_week_seconds < now \<longrightarrow>
                count (usage_data_cache (snd (use_credit user_id now st)) ! i) = Some 1 \<and>
                count (usage_data_cache (snd (check_credit user_id now st)) ! i) = Some 0) \<and>
             (now \<le> dict_get (week_start (usage_data_cache st ! i)) 0 + one_week_seconds \<longrightarrow>
                count (usage_data_cache (snd (use_credit user_id now st)) ! i) =
                  (case count (usage_data_cache st ! i) of
                     None \<Rightarrow> None
                   | Some c \<Rightarrow> Some (if c < USAGE_LIMIT then c + 1 else c)) \<and>
                (\<forall>c. count (usage_data_cache st ! i) = Some c \<longrightarrow>
                   count_in_range (usage_data_cache (snd (use_credit user_id now st)) ! i) =
                     (- 1 \<le> c \<and> c \<le> USAGE_LIMIT)))"
proof (cases "find_user user_id (usage_data_cache st)")
  case None
  then show ?thesis
    using assms find_user_append [OF None, of "\<lparr>rec_id = Some user_id, count = Some 1, week_start = Some now\<rparr>"]
    by (simp add: use_credit_def)
next
  case (Some i)
  have lt: "i < length (usage_data_cache st)" and idr: "rec_id (usage_data_cache st ! i) = Some user_id"
    using find_user_Some [OF Some] by simp_all
  have upd: "\<And>r'. rec_id r' = Some user_id \<Longrightarrow>
               find_user user_id ((usage_data_cache st)[i := r']) = Some i"
    using find_user_update [OF Some] by simp
  have f: "find_user user_id (usage_data_cache (snd (use_credit user_id now st))) = Some i"
    using assms Some idr upd
    by (simp add: use_credit_def Let_def split: option.splits)
  have r: "count_in_range (usage_data_cache st ! i) \<longrightarrow>
                count_in_range (usage_data_cache (snd (use_credit user_id now st)) ! i)"
    using assms Some lt
    by (auto simp add: use_credit_def Let_def count_in_range_def dict_get_def USAGE_LIMIT_def
        split: option.splits)
  have e: "dict_get (week_start (usage_data_cache st ! i)) 0 + one_week_seconds < now \<longrightarrow>
                count (usage_data_cache (snd (use_credit user_id now st)) ! i) = Some 1 \<and>
                count (usage_data_cache (snd (check_credit user_id now st)) ! i) = Some 0"
    using assms Some lt
    by (auto simp add: use_credit_def check_credit_def Let_def dict_get_def USAGE_LIMIT_def
        split: option.splits)
  have o: "now \<le> dict_get (week_start (usage_data_cache st ! i)) 0 + one_week_seconds \<longrightarrow>
                count (usage_data_cache (snd (use_credit user_id now st)) ! i) =
                  (case count (usage_data_cache st ! i) of
                     None \<Rightarrow> None
                   | Some c \<Rightarrow> Some (if c < USAGE_LIMIT then c + 1 else c))"
    using assms Some lt
    by (auto simp add: use_credit_def Let_def dict_get_def USAGE_LIMIT_def
        split: option.splits)
  have q: "now \<le> dict_get (week_start (usage_data_cache st ! i)) 0 + one_week_seconds \<longrightarrow>
                (\<forall>c. count (usage_data_cache st ! i) = Some c \<longrightarrow>
                   count_in_range (usage_data_cache (snd (use_credit user_id now st)) ! i) =
                     (- 1 \<le> c \<and> c \<le> USAGE_LIMIT))"
    using o by (auto simp add: count_in_range_def USAGE_LIMIT_def)
  show ?thesis using Some f r e o q by simp
qed

text \<open>
  In an open window: 4 credits used become 5; a loaded count of 7 stays 7, out of the
  range; a loaded count of -1 becomes 0. In an expired window a loaded count of 7 is
  reset. A client without a record gets one with the count 1.
\<close>

theorem count_range_witness:
  "''u1'' \<noteq> [] \<and>
   find_user ''u1'' (usage_data_cache (example_state [example_record ''u1'' 4 1000])) = Some 0 \<and>
   count_in_range (usage_data_cache (example_state [example_record ''u1'' 4 1000]) ! 0) \<and>
   (2000::real) \<le> 1000 + one_week_seconds \<and>
   count (usage_data_cache (snd (use_credit ''u1'' 2000 (example_state [example_record ''u1'' 4 1000]))) ! 0) = Some 5 \<and>
   count_in_range (usage_data_cache (snd (use_credit ''u1'' 2000 (example_state [example_record ''u1'' 4 1000]))) ! 0) \<and>
   count (usage_data_cache (snd (use_credit ''u1'' 2000 (example_state [example_record ''u1'' 7 1000]))) ! 0) = Some 7 \<and>
   \<not> count_in_range (usage_data_cache (snd (use_credit ''u1'' 2000 (example_state [example_record ''u1'' 7 1000]))) ! 0) \<and>
   count (usage_data_cache (snd (use_credit ''u1'' 2000 (example_state [example_record ''u1'' (- 1) 1000]))) ! 0) = Some 0 \<and>
   count_in_range (usage_data_cache (snd (use_credit ''u1'' 2000 (example_state [example_record ''u1'' (- 1) 1000]))) ! 0) \<and>
   dict_get (week_start (usage_data_cache (example_state [example_record ''u1'' 7 1000]) ! 0)) 0 + one_week_seconds < 1000000 \<and>
   count (usage_data_cache (snd (use_credit ''u1'' 1000000 (example_state [example_record ''u1'' 7 1000]))) ! 0) = Some 1 \<and>
   count (usage_data_cache (snd (check_credit ''u1'' 1000000 (example_state [example_record ''u1'' 7 1000]))) ! 0) = Some 0 \<and>
   find_user ''u1'' (usage_data_cache (startup_state None)) = None \<and>
   count (usage_data_cache (snd (use_credit ''u1'' 1000 (startup_state None))) ! 0) = Some 1"
proof -
  let ?a = "example_state [example_record ''u1'' 4 1000]"
  let ?b = "example_state [example_record ''u1'' 7 1000]"
  let ?m = "example_state [example_record ''u1'' (- 1) 1000]"
  have h1: "''u1'' \<noteq> []" by simp
  have fa: "find_user ''u1'' (usage_data_cache ?a) = Some 0"
    by (simp add: example_state_def example_record_def)
  have fb: "find_user ''u1'' (usage_data_cache ?b) = Some 0"
    by (simp add: example_state_def example_record_def)
  have fm: "find_user ''u1'' (usage_data_cache ?m) = Some 0"
    by (simp add: example_state_def example_record_def)
  have fc: "find_user ''u1'' (usage_data_cache (startup_state None)) = None"
    by (simp add: startup_state_def)
  have ra: "count_in_range (usage_data_cache ?a ! 0)"
    by (simp add: example_state_def example_record_def count_in_range_def USAGE_LIMIT_def)
  have w: "(2000::real) \<le> 1000 + one_week_seconds" by (simp add: one_week_seconds_def)
  have oa: "2000 \<le> dict_get (week_start (usage_data_cache ?a ! 0)) 0 + one_week_seconds"
    by (simp add: example_state_def example_record_def dict_get_def one_week_seconds_def)
  have ob: "2000 \<le> dict_get (week_start (usage_data_cache ?b ! 0)) 0 + one_week_seconds"
    by (simp add: example_state_def example_record_def dict_get_def one_week_seconds_def)
  have om: "2000 \<le> dict_get (week_start (usage_data_cache ?m ! 0)) 0 + one_week_seconds"
    by (simp add: example_state_def example_record_def dict_get_def one_week_seconds_def)
  have ca: "count (usage_data_cache ?a ! 0) = Some 4"
    by (simp add: example_state_def example_record_def)
  have cb: "count (usage_data_cache ?b ! 0) = Some 7"
    by (simp add: example_state_def example_record_def)
  have cm: "count (usage_data_cache ?m ! 0) = Some (- 1)"
    by (simp add: example_state_def example_record_def)
  have eb: "dict_get (week_start (usage_data_cache ?b ! 0)) 0 + one_week_seconds < 1000000"
    by (simp add: example_state_def example_record_def dict_get_def one_week_seconds_def)
  have a: "count (usage_data_cache (snd (use_credit ''u1'' 2000 ?a)) ! 0) = Some 5 \<and>
           count_in_range (usage_data_cache (snd (use_credit ''u1'' 2000 ?a)) ! 0)"
    using count_range [OF h1, where st = ?a and now = 2000] fa ra oa ca
    by (simp add: USAGE_LIMIT_def)
  have b: "count (usage_data_cache (snd (use_credit ''u1'' 2000 ?b)) ! 0) = Some 7 \<and>
           \<not> count_in_range (usage_data_cache (snd (use_credit ''u1'' 2000 ?b)) ! 0)"
    using count_range [OF h1, where st = ?b and now = 2000] fb ob cb
    by (simp add: USAGE_LIMIT_def)
  have m: "count (usage_data_cache (snd (use_credit ''u1'' 2000 ?m)) ! 0) = Some 0 \<and>
           count_in_range (usage_data_cache (snd (use_credit ''u1'' 2000 ?m)) ! 0)"
    using count_range [OF h1, where st = ?m and now = 2000] fm om cm
    by (simp add: USAGE_LIMIT_def)
  have x: "count (usage_data_cache (snd (use_credit ''u1'' 1000000 ?b)) ! 0) = Some 1 \<and>
           count (usage_data_cache (snd (check_credit ''u1'' 1000000 ?b)) ! 0) = Some 0"
    using count_range [OF h1, where st = ?b and now = 1000000] fb eb by simp
  have c: "count (usage_data_cache (snd (use_credit ''u1'' 1000 (startup_state None))) ! 0) = Some 1"
    using count_range [OF h1, where st = "startup_state None" and now = 1000] fc
    by (simp add: startup_state_def)
  show ?thesis using h1 fa ra w a b m eb x fc c by simp
qed

text \<open>
  C8. The startup load. Without a client the cache stays the empty list of the module.
  With a client: when the download raises (no such file, no such repository, any other
  failure), when the document is the empty string and when it does not parse, the cache
  is the empty list; when a non-empty document parses, the cache is the list of records
  parsed. Nothing else of the state changes, and no exception leaves the function: every
  one the body raises has a handler.
\<close>

theorem load_initial_data_outcomes:
  "(api = None \<longrightarrow>
      load_initial_data api download json_loads (startup_state hub) = startup_state hub \<and>
      usage_data_cache (startup_state hub) = []) \<and>
   (api \<noteq> None \<longrightarrow>
      (\<forall>e. download = Raises e \<longrightarrow>
         load_initial_data api download json_loads st = st\<lparr>usage_data_cache := []\<rparr>) \<and>
      (download = Returns [] \<longrightarrow>
         load_initial_data api download json_loads st = st\<lparr>usage_data_cache := []\<rparr>) \<and>
      (\<forall>content. download = Returns content \<and> content \<noteq> [] \<and> json_loads content = None \<longrightarrow>
         load_initial_data api download json_loads st = st\<lparr>usage_data_cache := []\<rparr>) \<and>
      (\<forall>content records.
         download = Returns content \<and> content \<noteq> [] \<and> json_loads content = Some records \<longrightarrow>
         load_initial_data api download json_loads st = st\<lparr>usage_data_cache := records\<rparr>))"
proof -
  have none: "api = None \<longrightarrow>
      load_initial_data api download json_loads (startup_state hub) = startup_state hub \<and>
      usage_data_cache (startup_state hub) = []"
    by (simp add: load_initial_data_def startup_state_def)
  have raises: "\<And>e. api \<noteq> None \<Longrightarrow> download = Raises e \<Longrightarrow>
         load_initial_data api download json_loads st = st\<lparr>usage_data_cache := []\<rparr>"
    by (cases api; simp add: load_initial_data_def load_body_def split: py_exception.splits)
  have empty: "api \<noteq> None \<Longrightarrow> download = Returns [] \<Longrightarrow>
         load_initial_data api download json_loads st = st\<lparr>usage_data_cache := []\<rparr>"
    by (cases api; simp add: load_initial_data_def load_body_def)
  have bad: "\<And>content. api \<noteq> None \<Longrightarrow> download = Returns content \<Longrightarrow> content \<noteq> [] \<Longrightarrow>
         json_loads content = None \<Longrightarrow>
         load_initial_data api download json_loads st = st\<lparr>usage_data_cache := []\<rparr>"
    by (cases api; simp add: load_initial_data_def load_body_def)
  have good: "\<And>content records. api \<noteq> None \<Longrightarrow> download = Returns content \<Longrightarrow> content \<noteq> [] \<Longrightarrow>
         json_loads content = Some records \<Longrightarrow>
         load_initial_data api download json_loads st = st\<lparr>usage_data_cache := records\<rparr>"
    by (cases api; simp add: load_initial_data_def load_body_def)
  show ?thesis using none raises empty bad good by blast
qed

theorem load_initial_data_outcomes_witness:
  "load_initial_data None (Returns ''[u1 2 1000]'') example_loads (startup_state None) = startup_state None \<and>
   usage_data_cache (load_initial_data (Some HfApi) (Raises EntryNotFoundError) example_loads
      (startup_state None)) = [] \<and>
   usage_data_cache (load_initial_data (Some HfApi) (Raises OtherException) example_loads
      (startup_state None)) = [] \<and>
   usage_data_cache (load_initial_data (Some HfApi) (Returns []) example_loads
      (startup_state (Some []))) = [] \<and>
   example_loads ''[u1 2'' = None \<and>
   usage_data_cache (load_initial_data (Some HfApi) (Returns ''[u1 2'') example_loads
      (startup_state (Some []))) = [] \<and>
   example_loads ''[u1 2 1000]'' = Some [example_record ''u1'' 2 1000] \<and>
   usage_data_cache (load_initial_data (Some HfApi) (Returns ''[u1 2 1000]'') example_loads
      (startup_state (Some [example_record ''u1'' 2 1000]))) = [example_record ''u1'' 2 1000]"
proof -
  have api: "Some HfApi \<noteq> None" by simp
  have l1: "example_loads ''[u1 2'' = None" by (simp add: example_loads_def)
  have l2: "example_loads ''[u1 2 1000]'' = Some [example_record ''u1'' 2 1000]"
    by (simp add: example_loads_def)
  have w0: "load_initial_data None (Returns ''[u1 2 1000]'') example_loads (startup_state None) =
              startup_state None"
    using load_initial_data_outcomes
      [where api = None and download = "Returns ''[u1 2 1000]''" and json_loads = example_loads
         and hub = None] by simp
  have w1: "usage_data_cache (load_initial_data (Some HfApi) (Raises EntryNotFoundError) example_loads
      (startup_state None)) = []"
    using load_initial_data_outcomes
      [where api = "Some HfApi" and download = "Raises EntryNotFoundError" and json_loads = example_loads
         and st = "startup_state None"] api
    by simp
  have w2: "usage_data_cache (load_initial_data (Some HfApi) (Raises OtherException) example_loads
      (startup_state None)) = []"
    using load_initial_data_outcomes
      [where api = "Some HfApi" and download = "Raises OtherException" and json_loads = example_loads
         and st = "startup_state None"] api
    by simp
  have w3: "usage_data_cache (load_initial_data (Some HfApi) (Returns []) example_loads
      (startup_state (Some []))) = []"
    using load_initial_data_outcomes
      [where api = "Some HfApi" and download = "Returns []" and json_loads = example_loads
         and st = "startup_state (Some [])"] api
    by simp
  have w4: "usage_data_cache (load_initial_data (Some HfApi) (Returns ''[u1 2'') example_loads
      (startup_state (Some []))) = []"
    using load_initial_data_outcomes
      [where api = "Some HfApi" and download = "Returns ''[u1 2''" and json_loads = example_loads
         and st = "startup_state (Some [])"] api l1
    by simp
  have w5: "usage_data_cache (load_initial_data (Some HfApi) (Returns ''[u1 2 1000]'') example_loads
      (startup_state (Some [example_record ''u1'' 2 1000]))) = [example_record ''u1'' 2 1000]"
    using load_initial_data_outcomes
      [where api = "Some HfApi" and download = "Returns ''[u1 2 1000]''" and json_loads = example_loads
         and st = "startup_state (Some [example_record ''u1'' 2 1000])"] api l2
    by simp
  show ?thesis using w0 w1 w2 w3 l1 w4 l2 w5 by simp
qed

text \<open>
  C9. \<^verbatim>\<open>check_credit\<close> for an identifier without a record answers
  \<^verbatim>\<open>USAGE_LIMIT\<close> (5) credits, limit not reached and the reset timestamp 0, and leaves
  the state as it found it: no record is created and \<^verbatim>\<open>data_changed\<close> is not touched.
\<close>

theorem check_credit_unknown_user:
  assumes "user_id \<noteq> []"
    and "\<forall>r \<in> set (usage_data_cache st). rec_id r \<noteq> Some user_id"
  shows "check_credit user_id now st = (CheckOk USAGE_LIMIT False 0, st) \<and> USAGE_LIMIT = 5"
  using assms by (simp add: check_credit_def USAGE_LIMIT_def find_user_None [symmetric])

theorem check_credit_unknown_user_witness:
  "''u1'' \<noteq> [] \<and>
   list_all (\<lambda>r. rec_id r \<noteq> Some ''u1'')
     (usage_data_cache (example_state [example_record ''u2'' 3 500])) \<and>
   check_credit ''u1'' 1000 (example_state [example_record ''u2'' 3 500]) =
     (CheckOk 5 False 0, example_state [example_record ''u2'' 3 500]) \<and>
   usage_data_cache (snd (check_credit ''u1'' 1000 (example_state [example_record ''u2'' 3 500]))) =
     [example_record ''u2'' 3 500] \<and>
   \<not> data_changed (snd (check_credit ''u1'' 1000 (example_state [example_record ''u2'' 3 500])))"
proof -
  have h1: "''u1'' \<noteq> []" by simp
  have h2: "\<forall>r \<in> set (usage_data_cache (example_state [example_record ''u2'' 3 500])).
              rec_id r \<noteq> Some ''u1''"
    by (simp add: example_state_def example_record_def)
  show ?thesis
    using h1 h2 check_credit_unknown_user [OF h1 h2, of 1000]
    by (simp add: example_state_def USAGE_LIMIT_def)
qed

text \<open>
  C10. Without a client (\<^verbatim>\<open>api\<close> is \<^verbatim>\<open>None\<close>) a publish cycle returns the
  state it was given: no upload, the event and the cache untouched. In any execution
  without a client the remote document is never written, and the event, once set, stays
  set.
\<close>

theorem persist_without_api:
  assumes "publishing st = Idle"
  shows "persist_data_to_hub None tmp upload st = st \<and>
         hub_file (run None evs st) = hub_file st \<and>
         (data_changed st \<longrightarrow> data_changed (run None evs st))"
  using assms no_api_run [OF assms, of evs]
  by (simp add: persist_data_to_hub_def persist_snapshot_def persist_write_def persist_upload_def)

theorem persist_without_api_witness:
  "publishing (dirty_state [example_record ''u1'' 1 1000]) = Idle \<and>
   persist_data_to_hub None (Returns ()) (Returns ()) (dirty_state [example_record ''u1'' 1 1000]) =
     dirty_state [example_record ''u1'' 1 1000] \<and>
   data_changed (dirty_state [example_record ''u1'' 1 1000]) \<and>
   data_changed
     (run None [PersistSnapshot, PersistWrite (Returns []), PersistUpload (Returns ()),
                UseCredit ''u1'' 1001, PersistSnapshot]
        (dirty_state [example_record ''u1'' 1 1000])) \<and>
   hub_file
     (run None [PersistSnapshot, PersistWrite (Returns []), PersistUpload (Returns ()),
                UseCredit ''u1'' 1001, PersistSnapshot]
        (dirty_state [example_record ''u1'' 1 1000])) = None"
proof -
  let ?st = "dirty_state [example_record ''u1'' 1 1000]"
  have h1: "publishing ?st = Idle" by (simp add: dirty_state_def)
  have h2: "data_changed ?st" by (simp add: dirty_state_def)
  have h3: "hub_file ?st = None" by (simp add: dirty_state_def)
  show ?thesis
    using h1 h2 h3
      persist_without_api [OF h1, where tmp = "Returns ()" and upload = "Returns ()" and evs =
        "[PersistSnapshot, PersistWrite (Returns []), PersistUpload (Returns ()),
          UseCredit ''u1'' 1001, PersistSnapshot]"]
    by simp
qed

end
